theory Spec2Isabelle
  imports Complex_Main
begin

section \<open>Python values and exceptions\<close>

text \<open>
  A Python float is an IEEE 754 double: a finite value, an infinity or a NaN. A finite
  double is held by its real value, so the two zeros are one value (they compare equal
  in Python as well). The result of an operation on doubles is the exact result rounded
  to the nearest double, ties to the even significand: the doubles around a number \<open>x\<close>
  are the multiples of \<open>2^(e - 52)\<close>, where \<open>2^e \<le> |x| < 2^(e + 1)\<close>, and of \<open>2^-1074\<close> below
  the normal range; a result that rounds to \<open>2^1024\<close> or beyond is an infinity.
\<close>

datatype pyfloat = Finite real | PosInf | NegInf | NaN

definition round_half_even :: "real \<Rightarrow> int" where
  "round_half_even x =
     (let f = \<lfloor>x\<rfloor>; d = x - real_of_int f
      in if d < 1 / 2 then f else if 1 / 2 < d then f + 1 else if even f then f else f + 1)"

definition quantum :: "real \<Rightarrow> real" where
  "quantum x = 2 powr real_of_int (max (\<lfloor>log 2 \<bar>x\<bar>\<rfloor> - 52) (- 1074))"

definition round_to_grid :: "real \<Rightarrow> real" where
  "round_to_grid x =
     (if x = 0 then 0 else real_of_int (round_half_even (x / quantum x)) * quantum x)"

definition round_double :: "real \<Rightarrow> pyfloat" where
  "round_double x =
     (let y = round_to_grid x
      in if 2 ^ 1024 \<le> y then PosInf else if y \<le> - (2 ^ 1024) then NegInf else Finite y)"

text \<open>\<^verbatim>\<open>x + y\<close> on floats.\<close>

fun fadd :: "pyfloat \<Rightarrow> pyfloat \<Rightarrow> pyfloat" where
  "fadd (Finite a) (Finite b) = round_double (a + b)"
| "fadd NaN y = NaN"
| "fadd x NaN = NaN"
| "fadd PosInf NegInf = NaN"
| "fadd NegInf PosInf = NaN"
| "fadd PosInf y = PosInf"
| "fadd x PosInf = PosInf"
| "fadd NegInf y = NegInf"
| "fadd x NegInf = NegInf"

text \<open>\<^verbatim>\<open>-x\<close> and \<^verbatim>\<open>x - y\<close> on floats; a difference is the sum with the negated float.\<close>

fun fneg :: "pyfloat \<Rightarrow> pyfloat" where
  "fneg (Finite a) = Finite (- a)"
| "fneg PosInf = NegInf"
| "fneg NegInf = PosInf"
| "fneg NaN = NaN"

definition fsub :: "pyfloat \<Rightarrow> pyfloat \<Rightarrow> pyfloat" where
  "fsub x y = fadd x (fneg y)"

text \<open>\<^verbatim>\<open>k * x\<close> for a positive finite constant \<open>k\<close>, as in \<^verbatim>\<open>2. * bias\<close>.\<close>

fun fscale :: "real \<Rightarrow> pyfloat \<Rightarrow> pyfloat" where
  "fscale k (Finite a) = round_double (k * a)"
| "fscale k x = x"

text \<open>\<^verbatim>\<open>sum(values)\<close>: the values are added from the left, starting from 0.\<close>

definition fsum :: "pyfloat list \<Rightarrow> pyfloat" where
  "fsum xs = foldl fadd (Finite 0) xs"



text \<open>The truth value of a float in \<^verbatim>\<open>if x:\<close>: false for zero only.\<close>

fun truthy :: "pyfloat \<Rightarrow> bool" where
  "truthy (Finite a) = (a \<noteq> 0)"
| "truthy x = True"

text \<open>
  The wrapper \<^verbatim>\<open>dimod_wrapper.py\<close> is dynamically typed: \<^verbatim>\<open>num_repeats\<close> may be
  bound to any Python object, and the only thing \<^verbatim>\<open>sample\<close> does with it before
  forwarding it is the test
  \<^verbatim>\<open>not isinstance(num_repeats, int) or num_repeats <= 0\<close>.
\<close>

datatype pyval = PyNone | PyBool bool | PyInt int | PyFloat pyfloat | PyStr string

text \<open>\<^verbatim>\<open>isinstance(v, int)\<close>: \<^verbatim>\<open>bool\<close> is a subclass of \<^verbatim>\<open>int\<close>.\<close>

fun isinstance_int :: "pyval \<Rightarrow> bool" where
  "isinstance_int (PyInt n) = True"
| "isinstance_int (PyBool b) = True"
| "isinstance_int v = False"

text \<open>The integer an instance of \<^verbatim>\<open>int\<close> compares as: \<^verbatim>\<open>True\<close> is 1, \<^verbatim>\<open>False\<close> is 0.
  The comparison is only reached for instances of \<^verbatim>\<open>int\<close> (\<^verbatim>\<open>or\<close> short-circuits).\<close>

fun int_value :: "pyval \<Rightarrow> int" where
  "int_value (PyInt n) = n"
| "int_value (PyBool b) = (if b then 1 else 0)"
| "int_value v = 0"

text \<open>\<^verbatim>\<open>ValueError\<close> is what \<^verbatim>\<open>sample\<close> raises itself (the specification's
  \<^verbatim>\<open>InvalidConfiguration\<close>); the other two are the errors the specification lets the
  solver surface.\<close>

datatype error = ValueError | InvalidProblem | SubSolverError

section \<open>The dimod objects the wrapper handles\<close>

text \<open>
  \<^verbatim>\<open>dimod\<close> is an external library. Its objects are modelled as far as \<^verbatim>\<open>sample\<close>
  uses them, following the library's documented behaviour. The decorator
  \<^verbatim>\<open>bqm_index_labels\<close> hands \<^verbatim>\<open>sample\<close> a model whose variables are the indices
  \<open>0..n-1\<close>, so a variable is a \<^typ>\<open>nat\<close> and a sample \<^verbatim>\<open>{0: v0, 1: v1, ...}\<close> is the
  list \<open>[v0, v1, ...]\<close>. Dictionaries are association lists with distinct keys. A bias is
  a float; an integer bias stands for the float of the same value.
\<close>

datatype vartype = SPIN | BINARY

record bqm =
  linear :: "(nat \<times> pyfloat) list"
  quadratic :: "((nat \<times> nat) \<times> pyfloat) list"
  offset :: pyfloat
  vartype :: vartype

type_synonym qubo = "((nat \<times> nat) \<times> pyfloat) list"

text \<open>\<^verbatim>\<open>new_linear[u] -= d\<close> on a dictionary that holds every variable of the model.\<close>

definition sub_bias :: "nat \<Rightarrow> pyfloat \<Rightarrow> (nat \<times> pyfloat) list \<Rightarrow> (nat \<times> pyfloat) list" where
  "sub_bias u d lin = map (\<lambda>(k, b). if k = u then (k, fsub b d) else (k, b)) lin"

text \<open>
  \<^verbatim>\<open>BinaryQuadraticModel._spin_to_binary\<close>:
  \<^verbatim>\<open>
  new_linear = {v: 2. * bias for v, bias in iteritems(linear)}
  for (u, v), bias in iteritems(quadratic):
      new_quadratic[(u, v)] = 4. * bias
      new_linear[u] -= 2. * bias
      new_linear[v] -= 2. * bias
  offset += sum(itervalues(quadratic)) - sum(itervalues(linear))
  \<close>
\<close>

fun fold_couplings ::
  "((nat \<times> nat) \<times> pyfloat) list \<Rightarrow> (nat \<times> pyfloat) list \<Rightarrow> (nat \<times> pyfloat) list" where
  "fold_couplings [] lin = lin"
| "fold_couplings (((u, v), bias) # rest) lin =
     fold_couplings rest (sub_bias v (fscale 2 bias) (sub_bias u (fscale 2 bias) lin))"

definition spin_to_binary :: "bqm \<Rightarrow> bqm" where
  "spin_to_binary b =
     \<lparr> linear = fold_couplings (quadratic b) (map (\<lambda>(v, bias). (v, fscale 2 bias)) (linear b)),
       quadratic = map (\<lambda>(e, bias). (e, fscale 4 bias)) (quadratic b),
       offset = fadd (offset b)
                  (fsub (fsum (map snd (quadratic b))) (fsum (map snd (linear b)))),
       vartype = BINARY \<rparr>"

text \<open>The \<^verbatim>\<open>binary\<close> property of a model: the model itself when it is binary already.\<close>

definition binary :: "bqm \<Rightarrow> bqm" where
  "binary b = (if vartype b = BINARY then b else spin_to_binary b)"

text \<open>
  \<^verbatim>\<open>to_qubo\<close>: the quadratic biases of the binary model, then its linear biases on the
  diagonal, and the binary model's offset.
\<close>

definition to_qubo :: "bqm \<Rightarrow> qubo \<times> pyfloat" where
  "to_qubo b =
     (quadratic (binary b) @ map (\<lambda>(v, bias). ((v, v), bias)) (linear (binary b)),
      offset (binary b))"

text \<open>
  A \<^verbatim>\<open>Response\<close>: the sample matrix, the two data vectors the wrapper supplies, the
  \<^verbatim>\<open>info\<close> dictionary and the variable type of the samples.
\<close>

record response =
  samples :: "int list list"
  energy :: "pyfloat list"
  num_occurrences :: "nat list"
  info :: "(string \<times> pyval) list"
  resp_vartype :: vartype

text \<open>\<^verbatim>\<open>Response.from_dicts(samples, {'energy': .., 'num_occurrences': ..}, vartype)\<close>
  (dimod up to 0.6) and
  \<^verbatim>\<open>Response.from_samples(samples, {'energy': .., 'num_occurrences': ..}, info, vartype)\<close>
  (dimod from 0.7).\<close>

definition from_dicts :: "int list list \<Rightarrow> pyfloat list \<Rightarrow> nat list \<Rightarrow> vartype \<Rightarrow> response" where
  "from_dicts smps energies counts vt =
     \<lparr> samples = smps, energy = energies, num_occurrences = counts, info = [],
       resp_vartype = vt \<rparr>"

definition from_samples ::
  "int list list \<Rightarrow> pyfloat list \<Rightarrow> nat list \<Rightarrow> (string \<times> pyval) list \<Rightarrow> vartype \<Rightarrow> response" where
  "from_samples smps energies counts information vt =
     \<lparr> samples = smps, energy = energies, num_occurrences = counts, info = information,
       resp_vartype = vt \<rparr>"

text \<open>The change of the sample values between the two variable types:
  \<open>2 x - 1\<close> from binary to spin, \<open>(s + 1) / 2\<close> back.\<close>

definition convert_samples :: "vartype \<Rightarrow> vartype \<Rightarrow> int list list \<Rightarrow> int list list" where
  "convert_samples src dst smps =
     (if src = dst then smps
      else if dst = SPIN then map (map (\<lambda>x. 2 * x - 1)) smps
      else map (map (\<lambda>s. (s + 1) div 2)) smps)"

text \<open>
  \<^verbatim>\<open>response.change_vartype(vartype, {'energy': offsets})\<close> of dimod up to 0.6: the
  offsets are added to the data vector element by element, in floats, then the samples
  are converted.
\<close>

definition change_vartype_offsets :: "vartype \<Rightarrow> pyfloat list \<Rightarrow> response \<Rightarrow> response" where
  "change_vartype_offsets vt offsets r =
     r\<lparr> energy := map2 fadd (energy r) offsets,
        samples := convert_samples (resp_vartype r) vt (samples r),
        resp_vartype := vt \<rparr>"

text \<open>
  \<^verbatim>\<open>response.change_vartype(vartype, energy_offset=offset)\<close> of dimod from 0.7:
  \<^verbatim>\<open>if energy_offset: energy = energy + energy_offset\<close>, in floats, then the samples are
  converted.
\<close>

definition change_vartype_energy_offset :: "vartype \<Rightarrow> pyfloat \<Rightarrow> response \<Rightarrow> response" where
  "change_vartype_energy_offset vt energy_offset r =
     r\<lparr> energy := (if truthy energy_offset then map (\<lambda>e. fadd e energy_offset) (energy r)
                    else energy r),
        samples := convert_samples (resp_vartype r) vt (samples r),
        resp_vartype := vt \<rparr>"

section \<open>The sampler\<close>

datatype algorithm = ENERGY_IMPACT | SOLUTION_DIVERSITY

text \<open>The forms of the \<^verbatim>\<open>solver\<close> argument: the strings \<^verbatim>\<open>'tabu'\<close> and \<^verbatim>\<open>'dw'\<close>, a
  dimod sampler, a callable. Samplers and callables are opaque to the wrapper.\<close>

datatype solver = Tabu | DW | Sampler nat | Callable nat

text \<open>The keyword arguments of \<^verbatim>\<open>sample\<close>; \<open>None\<close> is Python's \<^verbatim>\<open>None\<close>.\<close>

record sample_args =
  num_repeats :: pyval
  seed :: "int option"
  algorithm :: "algorithm option"
  verbosity :: int
  timeout :: real
  solver_limit :: "nat option"
  solver :: "solver option"
  target :: "real option"
  find_max :: bool
  sample_kwargs :: "(string \<times> pyval) list"

text \<open>The keyword arguments of the call of \<^verbatim>\<open>run_qbsolv\<close>: those of \<^verbatim>\<open>sample\<close> and \<^verbatim>\<open>Q\<close>.\<close>

record solver_args = sample_args +
  Q :: qubo

text \<open>The defaults of the signature of \<^verbatim>\<open>sample\<close> (lines 32 to 34).\<close>

definition sample_defaults :: sample_args where
  "sample_defaults =
     \<lparr> num_repeats = PyInt 50, seed = None, algorithm = None, verbosity = - 1,
       timeout = 2592000, solver_limit = None, solver = None, target = None,
       find_max = False, sample_kwargs = [] \<rparr>"

text \<open>What \<^verbatim>\<open>run_qbsolv\<close> returns: \<^verbatim>\<open>samples, energies, counts\<close>.\<close>

type_synonym solver_out = "int list list \<times> pyfloat list \<times> nat list"

text \<open>The call \<^verbatim>\<open>run_qbsolv(Q=Q, num_repeats=num_repeats, ..., sample_kwargs=sample_kwargs)\<close>:
  every argument is forwarded unchanged.\<close>

definition forward :: "qubo \<Rightarrow> sample_args \<Rightarrow> solver_args" where
  "forward q a =
     \<lparr> num_repeats = num_repeats a, seed = seed a, algorithm = algorithm a,
       verbosity = verbosity a, timeout = timeout a, solver_limit = solver_limit a,
       solver = solver a, target = target a, find_max = find_max a,
       sample_kwargs = sample_kwargs a, Q = q \<rparr>"

text \<open>
  \<^verbatim>\<open>QBSolv.sample\<close>. \<^verbatim>\<open>run_qbsolv\<close> lives in the extension module \<^verbatim>\<open>qbsolv_binding\<close>
  and is a parameter here; \<open>has_from_dicts\<close> is the value of
  \<^verbatim>\<open>hasattr(dimod.Response, 'from_dicts')\<close>. The result is what the call raises or
  returns, paired with the list of the invocations of \<^verbatim>\<open>run_qbsolv\<close> it made.
\<close>

definition sample ::
  "(solver_args \<Rightarrow> error + solver_out) \<Rightarrow> bool \<Rightarrow> bqm \<Rightarrow> sample_args
     \<Rightarrow> (error + response) \<times> solver_args list" where
  "sample run_qbsolv has_from_dicts b a =
     (if \<not> isinstance_int (num_repeats a) \<or> int_value (num_repeats a) \<le> 0
      then (Inl ValueError, [])
      else
        (case to_qubo b of (q, off) \<Rightarrow>
          (case run_qbsolv (forward q a) of
             Inl e \<Rightarrow> (Inl e, [forward q a])
           | Inr (smps, energies, counts) \<Rightarrow>
               (Inr (if has_from_dicts
                     then change_vartype_offsets (vartype b)
                            (replicate (length energies) off)
                            (from_dicts smps energies counts BINARY)
                     else change_vartype_energy_offset (vartype b) off
                            (from_samples smps energies counts [] BINARY)),
                [forward q a]))))"

section \<open>Construction of a sampler\<close>

text \<open>
  The class body binds \<^verbatim>\<open>properties = None\<close> and \<^verbatim>\<open>parameters = None\<close>; \<^verbatim>\<open>__init__\<close>
  binds the two attributes on the instance to objects it creates. Whether two
  instances share an object depends on which object each attribute refers to, so objects
  live in a store: the address of an object is its position in the list of all objects
  created so far, and a dictionary or a list holds addresses.
\<close>

datatype pyobj = DictObj "(string \<times> nat) list" | ListObj "nat list"

datatype ref = NoneRef | Ref nat

record pystate =
  heap :: "pyobj list"
  class_properties :: ref
  class_parameters :: ref

text \<open>The attributes of one instance of \<^verbatim>\<open>QBSolv\<close>.\<close>

record QBSolv =
  properties :: ref
  parameters :: ref

text \<open>The state after the class statement has run: no object yet, both class
  attributes \<^verbatim>\<open>None\<close>.\<close>

definition class_defined :: pystate where
  "class_defined = \<lparr> heap = [], class_properties = NoneRef, class_parameters = NoneRef \<rparr>"

text \<open>Evaluating a display (\<^verbatim>\<open>{}\<close>, \<^verbatim>\<open>[]\<close>, \<^verbatim>\<open>{k: v, ...}\<close>) creates a new object.\<close>

definition alloc :: "pyobj \<Rightarrow> pystate \<Rightarrow> nat \<times> pystate" where
  "alloc obj s = (length (heap s), s\<lparr>heap := heap s @ [obj]\<rparr>)"

text \<open>The items of the dictionary display of \<^verbatim>\<open>__init__\<close>, left to right: each value
  \<^verbatim>\<open>[]\<close> is evaluated on its own.\<close>

fun alloc_items :: "string list \<Rightarrow> pystate \<Rightarrow> (string \<times> nat) list \<times> pystate" where
  "alloc_items [] s = ([], s)"
| "alloc_items (k # ks) s =
     (case alloc (ListObj []) s of (r, s') \<Rightarrow>
        (case alloc_items ks s' of (kvs, s'') \<Rightarrow> ((k, r) # kvs, s'')))"

definition parameter_keys :: "string list" where
  "parameter_keys =
     [''num_repeats'', ''seed'', ''algorithm'', ''verbosity'', ''timeout'', ''solver_limit'',
      ''solver'', ''target'', ''find_max'', ''sample_kwargs'']"

text \<open>\<^verbatim>\<open>QBSolv.__init__\<close>: \<^verbatim>\<open>self.properties = {}\<close>, then
  \<^verbatim>\<open>self.parameters = {'num_repeats': [], ..., 'sample_kwargs': []}\<close>. It has no
  failing branch.\<close>

definition QBSolv_init :: "pystate \<Rightarrow> QBSolv \<times> pystate" where
  "QBSolv_init s =
     (case alloc (DictObj []) s of (p, s1) \<Rightarrow>
        (case alloc_items parameter_keys s1 of (kvs, s2) \<Rightarrow>
           (case alloc (DictObj kvs) s2 of (q, s3) \<Rightarrow>
              (\<lparr> properties = Ref p, parameters = Ref q \<rparr>, s3))))"

text \<open>Reading the store: the items of the dictionary an attribute refers to, and
  whether an address holds an empty list.\<close>

definition dict_items :: "pystate \<Rightarrow> ref \<Rightarrow> (string \<times> nat) list option" where
  "dict_items s r =
     (case r of NoneRef \<Rightarrow> None
      | Ref p \<Rightarrow>
          (if p < length (heap s)
           then (case heap s ! p of DictObj kvs \<Rightarrow> Some kvs | ListObj xs \<Rightarrow> None)
           else None))"

definition is_empty_list :: "pystate \<Rightarrow> nat \<Rightarrow> bool" where
  "is_empty_list s p = (p < length (heap s) \<and> heap s ! p = ListObj [])"

section \<open>The solver behind the wrapper\<close>

text \<open>
  Modelled from the spec: \<^verbatim>\<open>run_qbsolv\<close>, of the extension module \<^verbatim>\<open>qbsolv_binding\<close>,
  and the solver behind it, which are not among the sources. The model follows the
  specification's outer loop (section 4.6) step by step: Init, Iterate, the three stopping
  checks in their order, \<^verbatim>\<open>find_max\<close> as the sense of every comparison. What the
  specification leaves open is a parameter: the random initial assignment, the
  decomposer and the tabu search are functions of what the specification hands them and of
  a state of their own (random stream, tabu counters, solution pool). What the
  specification takes from outside the call is the \<open>world\<close>: the high-entropy source of
  an absent seed (section 4.2), the wall clock read at the iteration boundaries (sections
  4.6 and 5) and the answers of an external sub-solver (section 4.5).
\<close>

text \<open>Modelled from the spec: the stop reasons of the outer loop (section 4.6), which
  lives in the solver that is not among the sources.\<close>

datatype stop_reason = Timeout | TargetReached | RepeatsExhausted

text \<open>Modelled from the spec: what a run of the missing solver takes from outside the
  call. \<open>clock k\<close> is the elapsed time in seconds read at the end of iteration \<open>k\<close>,
  \<open>external k\<close> the candidate an external sub-solver returns in iteration \<open>k\<close>.\<close>

record world =
  chosen_seed :: int
  clock :: "nat \<Rightarrow> real"
  external :: "nat \<Rightarrow> int list"

text \<open>Modelled from the spec: the parts of the missing solver that the specification
  describes as heuristics (sections 4.3 and 4.4) without fixing them. \<open>initial n seed\<close>
  gives the state of the heuristics and the initial value of each variable;
  \<open>decompose\<close> says which variables to re-optimise; \<open>tabu_search\<close> gives the new
  value of each chosen variable. Each returns the next state of the heuristics.\<close>

record 'h heuristics =
  initial :: "nat \<Rightarrow> int \<Rightarrow> 'h \<times> (nat \<Rightarrow> bool)"
  decompose ::
    "algorithm \<Rightarrow> nat option \<Rightarrow> bool \<Rightarrow> qubo \<Rightarrow> int list \<Rightarrow> 'h \<Rightarrow> (nat \<Rightarrow> bool) \<times> 'h"
  tabu_search :: "bool \<Rightarrow> qubo \<Rightarrow> nat list \<Rightarrow> int list \<Rightarrow> 'h \<Rightarrow> (nat \<Rightarrow> bool) \<times> 'h"

text \<open>Modelled from the spec: the coefficients of the problem given to the missing
  solver are real numbers (section 3); a problem with another coefficient is malformed.\<close>

fun coefficient :: "pyfloat \<Rightarrow> real" where
  "coefficient (Finite c) = c"
| "coefficient x = 0"

fun is_finite :: "pyfloat \<Rightarrow> bool" where
  "is_finite (Finite c) = True"
| "is_finite x = False"

definition finite_qubo :: "qubo \<Rightarrow> bool" where
  "finite_qubo q = list_all (\<lambda>(e, c). is_finite c) q"

text \<open>Modelled from the spec: the energy of an assignment in the missing solver
  (section 3), the real number that is the sum over the stored coefficients of
  \<open>coeff(u,v) * value(u) * value(v)\<close>. A variable beyond the assignment has no value and
  adds nothing; the loop below only ever holds assignments of all variables.\<close>

definition value_at :: "int list \<Rightarrow> nat \<Rightarrow> int" where
  "value_at x u = (if u < length x then x ! u else 0)"

definition energy_of :: "qubo \<Rightarrow> int list \<Rightarrow> real" where
  "energy_of q x =
     sum_list (map (\<lambda>((u, v), c).
        coefficient c * real_of_int (value_at x u) * real_of_int (value_at x v)) q)"

text \<open>Modelled from the spec: the number \<open>n\<close> of variables \<open>0..n-1\<close> of the problem the
  missing solver is given (section 3).\<close>

definition num_variables :: "qubo \<Rightarrow> nat" where
  "num_variables q = fold (\<lambda>((u, v), c) n. max n (Suc (max u v))) q 0"

text \<open>Modelled from the spec: an assignment in the missing solver is an array of \<open>n\<close>
  binary values (section 3).\<close>

definition well_formed :: "nat \<Rightarrow> int list \<Rightarrow> bool" where
  "well_formed n x = (length x = n \<and> list_all (\<lambda>v. v = 0 \<or> v = 1) x)"

text \<open>Modelled from the spec: the seed of the missing solver's random stream
  (section 4.2), the given seed or, if there is none, one drawn from the high-entropy
  source.\<close>

definition effective_seed :: "int option \<Rightarrow> int \<Rightarrow> int" where
  "effective_seed s entropy = (case s of Some k \<Rightarrow> k | None \<Rightarrow> entropy)"

text \<open>Modelled from the spec: the algorithm the missing solver runs when none is given
  (section 6, and the docstring of \<^verbatim>\<open>sample\<close>: default \<^verbatim>\<open>ENERGY_IMPACT\<close>).\<close>

definition resolve_algorithm :: "algorithm option \<Rightarrow> algorithm" where
  "resolve_algorithm g = (case g of Some alg \<Rightarrow> alg | None \<Rightarrow> ENERGY_IMPACT)"

text \<open>Modelled from the spec: the configuration the missing solver works with, the seed
  and the algorithm resolved and everything else as it was passed.\<close>

definition engine_args :: "int \<Rightarrow> solver_args \<Rightarrow> solver_args" where
  "engine_args entropy a =
     a\<lparr> seed := Some (effective_seed (seed a) entropy),
        algorithm := Some (resolve_algorithm (algorithm a)) \<rparr>"

text \<open>Modelled from the spec: the sense of the comparisons in the missing solver
  (section 4.6). \<open>better fm e e'\<close>: the energy \<open>e\<close> is strictly better than \<open>e'\<close>;
  \<open>target_reached\<close>: a target was supplied and the energy is at or better than it.\<close>

definition better :: "bool \<Rightarrow> real \<Rightarrow> real \<Rightarrow> bool" where
  "better fm e e' = (if fm then e' < e else e < e')"

definition target_reached :: "bool \<Rightarrow> real option \<Rightarrow> real \<Rightarrow> bool" where
  "target_reached fm t e = (case t of None \<Rightarrow> False | Some v \<Rightarrow> (if fm then v \<le> e else e \<le> v))"

text \<open>Modelled from the spec: which forms of the \<^verbatim>\<open>solver\<close> argument select a sub-solver
  outside the missing solver (section 4.5); the default is the built-in tabu search.\<close>

fun external_solver :: "solver option \<Rightarrow> bool" where
  "external_solver None = False"
| "external_solver (Some Tabu) = False"
| "external_solver (Some s) = True"

text \<open>Modelled from the spec: the repeat budget of the missing solver, the validated
  \<^verbatim>\<open>num_repeats\<close> as a number.\<close>

definition repeats :: "solver_args \<Rightarrow> nat" where
  "repeats a = nat (int_value (num_repeats a))"

text \<open>Modelled from the spec: the state of the outer loop of the missing solver
  (section 4.6): the global assignment, BestSolution, the iterations since the last
  improvement, and the state of the heuristics.\<close>

record 'h search =
  assignment :: "int list"
  best :: "int list"
  best_energy :: real
  since :: nat
  memory :: 'h

text \<open>Modelled from the spec: the subset of at most \<^verbatim>\<open>solver_limit\<close> variables the
  decomposer of the missing solver picks (section 4.3), in the order of the variables.\<close>

definition subset_of :: "nat option \<Rightarrow> nat \<Rightarrow> (nat \<Rightarrow> bool) \<Rightarrow> nat list" where
  "subset_of limit n chosen =
     (case limit of None \<Rightarrow> filter chosen [0..<n]
      | Some l \<Rightarrow> take l (filter chosen [0..<n]))"

text \<open>Modelled from the spec: the candidate of the sub-solver of the missing solver
  (section 4.5), from the built-in tabu search or from an external one.\<close>

definition candidate ::
  "'h heuristics \<Rightarrow> world \<Rightarrow> solver_args \<Rightarrow> nat \<Rightarrow> nat list \<Rightarrow> int list \<Rightarrow> 'h
     \<Rightarrow> int list \<times> 'h" where
  "candidate H w a k S x m =
     (if external_solver (solver a) then (external w k, m)
      else (case tabu_search H (find_max a) (Q a) S x m of
              (chosen_value, m') \<Rightarrow> (map (\<lambda>v. if chosen_value v then 1 else 0) S, m')))"

text \<open>Modelled from the spec: the merge of the missing solver (section 4.6): the
  candidate's values for the variables of the subset, the others unchanged.\<close>

definition merge :: "int list \<Rightarrow> nat list \<Rightarrow> int list \<Rightarrow> int list" where
  "merge x S cand = fold (\<lambda>(v, c) y. y[v := c]) (zip S cand) x"

text \<open>Modelled from the spec: the update of BestSolution in the missing solver
  (section 4.6): replaced, and the counter reset, when the new energy is strictly better;
  else the counter goes up.\<close>

definition accept :: "solver_args \<Rightarrow> 'h search \<Rightarrow> int list \<Rightarrow> 'h \<Rightarrow> 'h search" where
  "accept a st x m =
     (if better (find_max a) (energy_of (Q a) x) (best_energy st)
      then st\<lparr> assignment := x, best := x, best_energy := energy_of (Q a) x, since := 0,
               memory := m \<rparr>
      else st\<lparr> assignment := x, since := Suc (since st), memory := m \<rparr>)"

text \<open>Modelled from the spec: one iteration of the missing solver (section 4.6):
  decompose, solve, merge, recompute the energy, update. A candidate of the wrong length
  or with a value that is not binary is a malformed response (section 4.5).\<close>

definition iterate ::
  "'h heuristics \<Rightarrow> world \<Rightarrow> solver_args \<Rightarrow> nat \<Rightarrow> 'h search \<Rightarrow> error + 'h search" where
  "iterate H w a k st =
     (case decompose H (resolve_algorithm (algorithm a)) (solver_limit a) (find_max a) (Q a)
             (assignment st) (memory st) of
        (chosen, m1) \<Rightarrow>
          (case candidate H w a k
                  (subset_of (solver_limit a) (num_variables (Q a)) chosen)
                  (assignment st) m1 of
             (cand, m2) \<Rightarrow>
               (if length cand
                     = length (subset_of (solver_limit a) (num_variables (Q a)) chosen)
                   \<and> well_formed (num_variables (Q a))
                       (merge (assignment st)
                          (subset_of (solver_limit a) (num_variables (Q a)) chosen) cand)
                then Inr (accept a st
                            (merge (assignment st)
                               (subset_of (solver_limit a) (num_variables (Q a)) chosen) cand)
                            m2)
                else Inl SubSolverError)))"

text \<open>Modelled from the spec: the stopping checks of the missing solver (section 4.6),
  evaluated at the end of an iteration in their order of priority: the elapsed time
  against the timeout, BestSolution against the target, the iterations since the last
  improvement against the repeat budget.\<close>

definition stopping_check :: "solver_args \<Rightarrow> real \<Rightarrow> 'h search \<Rightarrow> stop_reason option" where
  "stopping_check a elapsed st =
     (if timeout a \<le> elapsed then Some Timeout
      else if target_reached (find_max a) (target a) (best_energy st) then Some TargetReached
      else if repeats a \<le> since st then Some RepeatsExhausted
      else None)"

text \<open>Modelled from the spec: the outer loop of the missing solver (sections 4.6 and
  5): Init is followed by an iteration, each iteration completes (decompose, solve, merge,
  stopping check) before the next begins, and the run stops with BestSolution and the
  reason of the first check that fires.\<close>

function loop ::
  "'h heuristics \<Rightarrow> world \<Rightarrow> solver_args \<Rightarrow> nat \<Rightarrow> 'h search
     \<Rightarrow> error + ('h search \<times> stop_reason)" where
  "loop H w a k st =
     (case iterate H w a k st of
        Inl e \<Rightarrow> Inl e
      | Inr st' \<Rightarrow>
          (case stopping_check a (clock w k) st' of
             Some reason \<Rightarrow> Inr (st', reason)
           | None \<Rightarrow> loop H w a (Suc k) st'))"
  by pat_completeness auto

text \<open>The loop ends: an iteration either replaces BestSolution by an assignment of
  strictly better energy, of which there are finitely many, or uses up one of the
  repeats that are left.\<close>

termination
proof (relation "measures
    [\<lambda>(H, w, a, k, st). card {y. well_formed (num_variables (Q a)) y
         \<and> better (find_max a) (energy_of (Q a) y) (best_energy st)},
     \<lambda>(H, w, a, k, st). repeats a - since st]")
  show "wf (measures
    [\<lambda>(H :: 'a heuristics, w :: world, a :: solver_args, k :: nat, st :: 'a search).
        card {y. well_formed (num_variables (Q a)) y
         \<and> better (find_max a) (energy_of (Q a) y) (best_energy st)},
     \<lambda>(H, w, a, k, st). repeats a - since st])"
    by simp
next
  fix H :: "'a heuristics" and w :: world and a :: solver_args and k :: nat
    and st st' :: "'a search"
  assume step: "iterate H w a k st = Inr st'"
    and go: "stopping_check a (clock w k) st' = None"
  from go have left: "\<not> repeats a \<le> since st'"
    by (simp add: stopping_check_def split: if_splits)
  let ?n = "num_variables (Q a)"
  let ?E = "energy_of (Q a)"
  let ?B = "\<lambda>e. {y. well_formed ?n y \<and> better (find_max a) (?E y) e}"
  from step obtain x m where wf: "well_formed ?n x" and st': "st' = accept a st x m"
    by (auto simp: iterate_def split: prod.splits if_splits)
  have fin: "finite (?B e)" for e
  proof (rule finite_subset)
    show "?B e \<subseteq> {y. set y \<subseteq> {0, 1} \<and> length y = ?n}"
      by (auto simp: well_formed_def list_all_iff)
    show "finite {y :: int list. set y \<subseteq> {0, 1} \<and> length y = ?n}"
      by (rule finite_lists_length_eq) simp
  qed
  show "((H, w, a, Suc k, st'), (H, w, a, k, st)) \<in> measures
    [\<lambda>(H, w, a, k, st). card {y. well_formed (num_variables (Q a)) y
         \<and> better (find_max a) (energy_of (Q a) y) (best_energy st)},
     \<lambda>(H, w, a, k, st). repeats a - since st]"
  proof (cases "better (find_max a) (?E x) (best_energy st)")
    case True
    then have e': "best_energy st' = ?E x" by (simp add: st' accept_def)
    have "?B (?E x) \<subset> ?B (best_energy st)"
    proof
      show "?B (?E x) \<subseteq> ?B (best_energy st)"
        using True by (auto simp: better_def split: if_splits)
      have "x \<in> ?B (best_energy st)" using wf True by simp
      moreover have "x \<notin> ?B (?E x)" by (simp add: better_def)
      ultimately show "?B (?E x) \<noteq> ?B (best_energy st)" by blast
    qed
    then have "card (?B (?E x)) < card (?B (best_energy st))"
      by (rule psubset_card_mono [OF fin])
    then show ?thesis by (simp add: e')
  next
    case False
    then have "best_energy st' = best_energy st" "since st' = Suc (since st)"
      by (simp_all add: st' accept_def)
    with left show ?thesis by simp
  qed
qed

declare loop.simps [simp del]

text \<open>Modelled from the spec: a run of the missing solver (section 4.6). A malformed
  problem is rejected at Init; else Init sets the global assignment, its energy and
  BestSolution, and the first iteration follows.\<close>

definition orchestrate ::
  "'h heuristics \<Rightarrow> world \<Rightarrow> solver_args \<Rightarrow> error + ('h search \<times> stop_reason)" where
  "orchestrate H w a =
     (if \<not> finite_qubo (Q a) then Inl InvalidProblem
      else
        (case initial H (num_variables (Q a)) (effective_seed (seed a) (chosen_seed w)) of
           (m0, start) \<Rightarrow>
             loop H w a 0
               \<lparr> assignment = map (\<lambda>v. if start v then 1 else 0) [0..<num_variables (Q a)],
                 best = map (\<lambda>v. if start v then 1 else 0) [0..<num_variables (Q a)],
                 best_energy =
                   energy_of (Q a)
                     (map (\<lambda>v. if start v then 1 else 0) [0..<num_variables (Q a)]),
                 since = 0, memory = m0 \<rparr>))"

text \<open>Modelled from the spec: \<^verbatim>\<open>run_qbsolv\<close> of \<^verbatim>\<open>qbsolv_binding\<close>, missing from the
  sources. It runs the solver and returns what \<^verbatim>\<open>sample\<close> unpacks, the samples, the
  energies and the counts: BestSolution, its energy as a float, and the occurrence count
  of 1 (section 6). The stop reason is not among the three.\<close>

definition run_qbsolv :: "'h heuristics \<Rightarrow> world \<Rightarrow> solver_args \<Rightarrow> error + solver_out" where
  "run_qbsolv H w a =
     (case orchestrate H w (engine_args (chosen_seed w) a) of
        Inl e \<Rightarrow> Inl e
      | Inr (st, reason) \<Rightarrow> Inr ([best st], [round_double (best_energy st)], [1]))"

text \<open>A solver run that returns the given samples, energies and counts.\<close>

definition returned :: "solver_out \<Rightarrow> solver_args \<Rightarrow> error + solver_out" where
  "returned out a = Inr out"







section \<open>The two documented examples\<close>

text \<open>\<^verbatim>\<open>sample_ising(h, J)\<close> with \<^verbatim>\<open>h = {0: -1, 1: 1, 2: -1}\<close> and
  \<^verbatim>\<open>J = {(0, 1): -1, (1, 2): -1}\<close> poses the spin model with these biases and offset 0.\<close>

definition ising_example :: bqm where
  "ising_example =
     \<lparr> linear = [(0, Finite (- 1)), (1, Finite 1), (2, Finite (- 1))],
       quadratic = [((0, 1), Finite (- 1)), ((1, 2), Finite (- 1))],
       offset = Finite 0, vartype = SPIN \<rparr>"

text \<open>\<^verbatim>\<open>sample_qubo(Q)\<close> with \<^verbatim>\<open>Q = {(0, 0): 1, (1, 1): 1, (0, 1): 1}\<close> poses the binary
  model with the diagonal as linear biases and offset 0.\<close>

definition qubo_example :: bqm where
  "qubo_example =
     \<lparr> linear = [(0, Finite 1), (1, Finite 1)], quadratic = [((0, 1), Finite 1)],
       offset = Finite 0, vartype = BINARY \<rparr>"

section \<open>Rounding to a double\<close>


lemma round_half_even_of_int [simp]: "round_half_even (real_of_int n) = n"
  by (simp add: round_half_even_def)














lemma round_double_of_int:
  assumes "\<bar>k\<bar> < 2 ^ 53"
  shows "round_double (real_of_int k) = Finite (real_of_int k)"
proof -
  have grid: "round_to_grid (real_of_int k) = real_of_int k"
  proof (cases "k = 0")
    case True
    then show ?thesis by (simp add: round_to_grid_def)
  next
    case False
    define x where "x = real_of_int k"
    define e where "e = \<lfloor>log 2 \<bar>x\<bar>\<rfloor>"
    have x1: "1 \<le> \<bar>x\<bar>" using False by (simp add: x_def)
    have x53: "\<bar>x\<bar> < 2 ^ 53"
    proof -
      have "real_of_int \<bar>k\<bar> < real_of_int (2 ^ 53)" using assms by (simp only: of_int_less_iff)
      then show ?thesis by (simp add: x_def)
    qed
    have "0 \<le> log 2 \<bar>x\<bar>" using x1 by simp
    then have e0: "0 \<le> e" by (simp add: e_def)
    have "\<bar>x\<bar> < 2 powr 53" using x53 by simp
    then have "log 2 \<bar>x\<bar> < 53" using x1 by (simp add: log_less_iff)
    then have e52: "e \<le> 52" unfolding e_def by linarith
    define n where "n = nat (52 - e)"
    have q: "quantum x = inverse (2 ^ n)"
    proof -
      have "max (e - 52) (- 1074) = e - 52" using e0 by linarith
      then have "quantum x = 2 powr real_of_int (e - 52)"
        by (simp only: quantum_def e_def)
      also have "real_of_int (e - 52) = - real n" using e52 by (simp add: n_def)
      also have "2 powr (- real n) = inverse (2 ^ n)"
        by (simp add: powr_minus powr_realpow)
      finally show ?thesis .
    qed
    have xne: "x \<noteq> 0" using x1 by auto
    have "x / quantum x = real_of_int (k * 2 ^ n)"
      unfolding q by (simp add: x_def divide_inverse)
    then have "round_half_even (x / quantum x) = k * 2 ^ n"
      by (simp only: round_half_even_of_int)
    then have "round_to_grid x = real_of_int (k * 2 ^ n) * inverse (2 ^ n)"
      using xne by (simp add: round_to_grid_def q)
    also have "\<dots> = x" by (simp add: x_def)
    finally show ?thesis unfolding x_def .
  qed
  have "real_of_int \<bar>k\<bar> < real_of_int (2 ^ 53)" using assms by (simp only: of_int_less_iff)
  then have "\<bar>real_of_int k\<bar> < 2 ^ 53" by simp
  moreover have "(2::real) ^ 53 < 2 ^ 1024" by simp
  ultimately have "real_of_int k < 2 ^ 1024" "- (2 ^ 1024) < real_of_int k" by linarith+
  then show ?thesis by (simp add: round_double_def grid)
qed


lemma round_double_one: "round_double 1 = Finite 1"
  using round_double_of_int [of 1] by simp

lemma map2_replicate_fadd:
  "map2 fadd es (replicate (length es) c) = map (\<lambda>e. fadd e c) es"
  by (induction es) auto

lemma sample_valid:
  assumes "isinstance_int (num_repeats a)" "0 < int_value (num_repeats a)"
  shows "fst (sample rq fd b a) =
     (case rq (forward (fst (to_qubo b)) a) of
        Inl e \<Rightarrow> Inl e
      | Inr (smps, energies, counts) \<Rightarrow>
          Inr \<lparr> samples = convert_samples BINARY (vartype b) smps,
                energy = (if \<not> fd \<and> \<not> truthy (snd (to_qubo b)) then energies
                          else map (\<lambda>e. fadd e (snd (to_qubo b))) energies),
                num_occurrences = counts, info = [], resp_vartype = vartype b \<rparr>)"
  using assms
  by (auto simp: sample_def change_vartype_offsets_def change_vartype_energy_offset_def
        from_dicts_def from_samples_def map2_replicate_fadd
      split: if_splits prod.splits sum.splits)


lemma sample_invokes_once:
  "isinstance_int (num_repeats a) \<Longrightarrow> 0 < int_value (num_repeats a) \<Longrightarrow>
     snd (sample rq fd b a) = [forward (fst (to_qubo b)) a]"
  by (auto simp: sample_def split: prod.splits sum.splits)

lemma defaults_valid:
  "isinstance_int (num_repeats sample_defaults)" "0 < int_value (num_repeats sample_defaults)"
  by (simp_all add: sample_defaults_def)


section \<open>The wrapper on the documented examples\<close>

lemma round_double_zero: "round_double 0 = Finite 0"
  using round_double_of_int [of 0] by simp

lemma round_double_numeral:
  assumes "(numeral n :: int) < 2 ^ 53"
  shows "round_double (numeral n) = Finite (numeral n)"
  using round_double_of_int [of "numeral n"] assms by simp

lemma round_double_neg_numeral:
  assumes "(numeral n :: int) < 2 ^ 53"
  shows "round_double (- numeral n) = Finite (- numeral n)"
  using round_double_of_int [of "- numeral n"] assms by simp

lemma round_double_neg_one: "round_double (- 1) = Finite (- 1)"
  using round_double_of_int [of "- 1"] by simp

lemmas round_double_small =
  round_double_zero round_double_one round_double_neg_one round_double_numeral
  round_double_neg_numeral

lemma to_qubo_ising_example:
  "to_qubo ising_example =
     ([((0, 1), Finite (- 4)), ((1, 2), Finite (- 4)), ((0, 0), Finite 0), ((1, 1), Finite 6),
       ((2, 2), Finite 0)], Finite (- 1))"
  by (simp add: to_qubo_def ising_example_def binary_def spin_to_binary_def sub_bias_def
      fsub_def fsum_def round_double_small)

lemma to_qubo_qubo_example:
  "to_qubo qubo_example = ([((0, 1), Finite 1), ((0, 0), Finite 1), ((1, 1), Finite 1)], Finite 0)"
  by (simp add: to_qubo_def qubo_example_def binary_def)

lemma offset_ising: "snd (to_qubo ising_example) = Finite (- 1)"
  by (simp add: to_qubo_ising_example)

lemma vartype_ising: "vartype ising_example = SPIN"
  by (simp add: ising_example_def)

lemma sample_qubo_example_returned:
  "fst (sample (returned ([[0, 0]], [Finite 0], [1])) fd qubo_example sample_defaults)
     = Inr \<lparr> samples = [[0, 0]], energy = [Finite 0], num_occurrences = [1], info = [],
             resp_vartype = BINARY \<rparr>"
proof -
  have vt: "vartype qubo_example = BINARY" by (simp add: qubo_example_def)
  show ?thesis
    unfolding sample_valid [OF defaults_valid] returned_def
    by (simp add: to_qubo_qubo_example convert_samples_def vt round_double_small)
qed

lemma sample_ising_example_returned:
  "fst (sample (returned ([[1, 1, 1]], [Finite 2], [1])) fd ising_example sample_defaults)
     = Inr \<lparr> samples = [[1, 1, 1]], energy = [Finite 1], num_occurrences = [1], info = [],
             resp_vartype = SPIN \<rparr>"
  unfolding sample_valid [OF defaults_valid] returned_def
  by (simp add: offset_ising convert_samples_def vartype_ising round_double_small)








text \<open>
  Claim C1. A call of \<^verbatim>\<open>sample\<close> whose \<^verbatim>\<open>num_repeats\<close> is not a positive integer, in
  particular an integer \<open>n \<le> 0\<close>, raises \<^verbatim>\<open>ValueError\<close> at once: whatever the solver
  and the model are, \<^verbatim>\<open>run_qbsolv\<close> is not invoked and no response is built.
\<close>

theorem sample_bad_num_repeats_raises:
  "(\<not> (isinstance_int v \<and> 0 < int_value v) \<longrightarrow>
      sample rq fd b (a\<lparr>num_repeats := v\<rparr>) = (Inl ValueError, []))
   \<and> (n \<le> 0 \<longrightarrow> sample rq fd b (a\<lparr>num_repeats := PyInt n\<rparr>) = (Inl ValueError, []))"
  by (auto simp: sample_def)

theorem sample_bad_num_repeats_raises_witness:
  "\<not> (isinstance_int (PyFloat (Finite 50)) \<and> 0 < int_value (PyFloat (Finite 50)))
   \<and> sample (returned ([[0, 0]], [Finite 0], [1])) True qubo_example
        (sample_defaults\<lparr>num_repeats := PyFloat (Finite 50)\<rparr>) = (Inl ValueError, [])
   \<and> (0::int) \<le> 0
   \<and> sample (returned ([[0, 0]], [Finite 0], [1])) True qubo_example
        (sample_defaults\<lparr>num_repeats := PyInt 0\<rparr>) = (Inl ValueError, [])"
  using sample_bad_num_repeats_raises
    [where v = "PyFloat (Finite 50)" and rq = "returned ([[0, 0]], [Finite 0], [1])"
       and fd = True and b = qubo_example and a = sample_defaults and n = 0]
  by simp

text \<open>
  Claim C8. \<^verbatim>\<open>num_repeats\<close> has to be an instance of \<^verbatim>\<open>int\<close>: a float, whatever
  its value, makes \<^verbatim>\<open>sample\<close> raise \<^verbatim>\<open>ValueError\<close>; \<^verbatim>\<open>True\<close> passes the test, so
  that \<^verbatim>\<open>run_qbsolv\<close> is invoked with \<^verbatim>\<open>num_repeats=True\<close> and a response is returned
  whenever the solver returns.
\<close>

theorem sample_num_repeats_must_be_int:
  "sample rq fd b (a\<lparr>num_repeats := PyFloat x\<rparr>) = (Inl ValueError, [])
   \<and> snd (sample rq fd b (a\<lparr>num_repeats := PyBool True\<rparr>))
       = [forward (fst (to_qubo b)) (a\<lparr>num_repeats := PyBool True\<rparr>)]
   \<and> (\<forall>out. rq (forward (fst (to_qubo b)) (a\<lparr>num_repeats := PyBool True\<rparr>)) = Inr out \<longrightarrow>
        (\<exists>r. fst (sample rq fd b (a\<lparr>num_repeats := PyBool True\<rparr>)) = Inr r))"
  by (auto simp: sample_def split: prod.splits sum.splits)

theorem sample_num_repeats_must_be_int_witness:
  "sample (returned ([[0, 0]], [Finite 0], [1])) True qubo_example
        (sample_defaults\<lparr>num_repeats := PyFloat (Finite 50)\<rparr>) = (Inl ValueError, [])
   \<and> returned ([[0, 0]], [Finite 0], [1])
        (forward (fst (to_qubo qubo_example)) (sample_defaults\<lparr>num_repeats := PyBool True\<rparr>))
       = Inr ([[0, 0]], [Finite 0], [1])
   \<and> (\<exists>r. fst (sample (returned ([[0, 0]], [Finite 0], [1])) True qubo_example
                  (sample_defaults\<lparr>num_repeats := PyBool True\<rparr>)) = Inr r)"
  using sample_num_repeats_must_be_int
    [where rq = "returned ([[0, 0]], [Finite 0], [1])" and fd = True and b = qubo_example
       and a = sample_defaults and x = "Finite 50"]
  by (simp add: returned_def)

text \<open>
  Claim C5. The defaults of \<^verbatim>\<open>sample\<close>: \<^verbatim>\<open>num_repeats\<close> is 50; \<^verbatim>\<open>algorithm\<close> is
  left unset in the signature and resolved to \<^verbatim>\<open>ENERGY_IMPACT\<close> by the solver;
  \<^verbatim>\<open>timeout\<close> is 2592000 seconds, which is thirty days; \<^verbatim>\<open>find_max\<close> is false, so the
  solver is handed the problem as it is and the better of two energies is the lower one.
\<close>

theorem sample_defaults_values:
  "num_repeats sample_defaults = PyInt 50
   \<and> algorithm sample_defaults = None
   \<and> algorithm (engine_args entropy (forward q sample_defaults)) = Some ENERGY_IMPACT
   \<and> timeout sample_defaults = 2592000
   \<and> timeout sample_defaults = 30 * 24 * 60 * 60
   \<and> find_max sample_defaults = False
   \<and> find_max (engine_args entropy (forward q sample_defaults)) = False
   \<and> Q (engine_args entropy (forward q sample_defaults)) = q
   \<and> better (find_max (engine_args entropy (forward q sample_defaults))) e e' = (e < e')"
  by (simp add: sample_defaults_def engine_args_def forward_def resolve_algorithm_def
      better_def)

theorem sample_defaults_values_witness:
  "algorithm (engine_args 0 (forward (fst (to_qubo qubo_example)) sample_defaults))
     = Some ENERGY_IMPACT
   \<and> find_max (engine_args 0 (forward (fst (to_qubo qubo_example)) sample_defaults)) = False
   \<and> Q (engine_args 0 (forward (fst (to_qubo qubo_example)) sample_defaults))
     = fst (to_qubo qubo_example)
   \<and> better (find_max (engine_args 0 (forward (fst (to_qubo qubo_example)) sample_defaults)))
       0 1"
  using sample_defaults_values [where entropy = 0 and q = "fst (to_qubo qubo_example)"
      and e = 0 and e' = 1]
  by (simp add: better_def)

section \<open>The solver\<close>










section \<open>Reproducibility\<close>




section \<open>Runs of the solver on the documented problems\<close>

















section \<open>Construction\<close>

lemma upt_shift_Suc: "[n ..< n + length (k # ks)] = n # [Suc n ..< Suc n + length ks]"
  by (simp add: upt_conv_Cons del: upt_Suc)

lemma alloc_items_result:
  "alloc_items ks s = (kvs, s') \<Longrightarrow>
     kvs = zip ks [length (heap s) ..< length (heap s) + length ks]
   \<and> heap s' = heap s @ replicate (length ks) (ListObj [])
   \<and> class_properties s' = class_properties s
   \<and> class_parameters s' = class_parameters s"
proof (induction ks arbitrary: s kvs s')
  case Nil
  then show ?case by simp
next
  case (Cons k ks)
  obtain kvs0 s0 where rest:
    "alloc_items ks (s\<lparr>heap := heap s @ [ListObj []]\<rparr>) = (kvs0, s0)"
    by (cases "alloc_items ks (s\<lparr>heap := heap s @ [ListObj []]\<rparr>)")
  from Cons.prems rest have kvs: "kvs = (k, length (heap s)) # kvs0" and s': "s' = s0"
    by (auto simp: alloc_def)
  from Cons.IH [OF rest] have ih:
    "kvs0 = zip ks [Suc (length (heap s)) ..< Suc (length (heap s)) + length ks]"
    "heap s0 = (heap s @ [ListObj []]) @ replicate (length ks) (ListObj [])"
    "class_properties s0 = class_properties s" "class_parameters s0 = class_parameters s"
    by auto
  have "[length (heap s) ..< length (heap s) + length (k # ks)]
          = length (heap s) # [Suc (length (heap s)) ..< Suc (length (heap s)) + length ks]"
    by (rule upt_shift_Suc)
  with kvs s' ih show ?case
    by (simp add: replicate_app_Cons_same del: upt_Suc)
qed

lemma QBSolv_init_result:
  assumes "QBSolv_init s = (obj, s')"
  shows "obj = \<lparr> properties = Ref (length (heap s)), parameters = Ref (length (heap s) + 11) \<rparr>"
    and "heap s' = heap s @ DictObj [] # replicate 10 (ListObj [])
                     @ [DictObj (zip parameter_keys [length (heap s) + 1 ..< length (heap s) + 11])]"
    and "class_properties s' = class_properties s"
    and "class_parameters s' = class_parameters s"
proof -
  let ?s1 = "s\<lparr>heap := heap s @ [DictObj []]\<rparr>"
  obtain kvs s2 where items: "alloc_items parameter_keys ?s1 = (kvs, s2)"
    by (cases "alloc_items parameter_keys ?s1")
  have len: "length parameter_keys = 10" by (simp add: parameter_keys_def)
  from alloc_items_result [OF items] len have
    kvs: "kvs = zip parameter_keys [length (heap s) + 1 ..< length (heap s) + 11]" and
    h2: "heap s2 = (heap s @ [DictObj []]) @ replicate 10 (ListObj [])" and
    c2: "class_properties s2 = class_properties s" "class_parameters s2 = class_parameters s"
    by (simp_all add: ac_simps)
  from assms items have
    obj: "obj = \<lparr> properties = Ref (length (heap s)), parameters = Ref (length (heap s2)) \<rparr>" and
    s': "s' = s2\<lparr>heap := heap s2 @ [DictObj kvs]\<rparr>"
    by (auto simp: QBSolv_init_def alloc_def)
  show "obj = \<lparr> properties = Ref (length (heap s)), parameters = Ref (length (heap s) + 11) \<rparr>"
    using obj h2 by simp
  show "heap s' = heap s @ DictObj [] # replicate 10 (ListObj [])
                     @ [DictObj (zip parameter_keys [length (heap s) + 1 ..< length (heap s) + 11])]"
    using s' h2 kvs by simp
  show "class_properties s' = class_properties s" using s' c2 by simp
  show "class_parameters s' = class_parameters s" using s' c2 by simp
qed

text \<open>
  Claim C10. \<^verbatim>\<open>QBSolv()\<close> always returns: the construction has no failing branch.
  Afterwards \<^verbatim>\<open>properties\<close> of the instance is an empty dictionary and
  \<^verbatim>\<open>parameters\<close> a dictionary with exactly the ten keys, each bound to an empty list of
  its own. All these objects are created by the call (their addresses lie beyond every
  object that existed before, those of earlier instances included, and the objects that
  existed are untouched), and the class attributes stay as they were.
\<close>

theorem QBSolv_init_establishes:
  assumes "QBSolv_init s = (obj, s')"
  shows "dict_items s' (properties obj) = Some []
   \<and> (\<exists>kvs. dict_items s' (parameters obj) = Some kvs
        \<and> set (map fst kvs) =
            {''num_repeats'', ''seed'', ''algorithm'', ''verbosity'', ''timeout'',
             ''solver_limit'', ''solver'', ''target'', ''find_max'', ''sample_kwargs''}
        \<and> distinct (map fst kvs)
        \<and> (\<forall>(k, p) \<in> set kvs. is_empty_list s' p \<and> length (heap s) \<le> p)
        \<and> distinct (map snd kvs))
   \<and> (\<exists>p q. properties obj = Ref p \<and> parameters obj = Ref q \<and> p \<noteq> q
        \<and> length (heap s) \<le> p \<and> length (heap s) \<le> q)
   \<and> take (length (heap s)) (heap s') = heap s
   \<and> class_properties s' = class_properties s
   \<and> class_parameters s' = class_parameters s"
proof -
  let ?n = "length (heap s)"
  let ?kvs = "zip parameter_keys [?n + 1 ..< ?n + 11]"
  note res = QBSolv_init_result [OF assms]
  have len: "length (heap s') = ?n + 12"
    by (simp add: res(2) parameter_keys_def)
  have props: "dict_items s' (properties obj) = Some []"
    by (simp add: dict_items_def res(1) len) (simp add: res(2))
  have params: "dict_items s' (parameters obj) = Some ?kvs"
    by (simp add: dict_items_def res(1) len) (simp add: res(2) nth_append)
  have keys: "map fst ?kvs = parameter_keys"
    by (simp add: parameter_keys_def)
  have vals: "map snd ?kvs = [?n + 1 ..< ?n + 11]"
    by (simp add: parameter_keys_def)
  have empty: "is_empty_list s' p \<and> ?n \<le> p" if "(k, p) \<in> set ?kvs" for k p
  proof -
    from that have "p \<in> set [?n + 1 ..< ?n + 11]" by (rule set_zip_rightD)
    then have p: "?n + 1 \<le> p" "p < ?n + 11" by simp_all
    define i where "i = p - (?n + 1)"
    from p have i: "p = ?n + 1 + i" "i < 10" by (simp_all add: i_def)
    have "heap s' ! p = ListObj []"
      using i by (simp add: res(2) nth_append nth_Cons')
    with p len show ?thesis by (simp add: is_empty_list_def)
  qed
  have k1: "set (map fst ?kvs) =
            {''num_repeats'', ''seed'', ''algorithm'', ''verbosity'', ''timeout'',
             ''solver_limit'', ''solver'', ''target'', ''find_max'', ''sample_kwargs''}"
    unfolding keys by (simp add: parameter_keys_def insert_commute)
  have k2: "distinct (map fst ?kvs)"
    unfolding keys by (simp add: parameter_keys_def)
  have k3: "\<forall>(k, p) \<in> set ?kvs. is_empty_list s' p \<and> ?n \<le> p"
    using empty by blast
  have k4: "distinct (map snd ?kvs)"
    unfolding vals by simp
  have dict: "\<exists>kvs. dict_items s' (parameters obj) = Some kvs
        \<and> set (map fst kvs) =
            {''num_repeats'', ''seed'', ''algorithm'', ''verbosity'', ''timeout'',
             ''solver_limit'', ''solver'', ''target'', ''find_max'', ''sample_kwargs''}
        \<and> distinct (map fst kvs)
        \<and> (\<forall>(k, p) \<in> set kvs. is_empty_list s' p \<and> length (heap s) \<le> p)
        \<and> distinct (map snd kvs)"
    using params k1 k2 k3 k4 by blast
  have refs: "\<exists>p q. properties obj = Ref p \<and> parameters obj = Ref q \<and> p \<noteq> q
        \<and> length (heap s) \<le> p \<and> length (heap s) \<le> q"
    by (simp add: res(1))
  have old: "take (length (heap s)) (heap s') = heap s"
    by (simp add: res(2))
  from props dict refs old res(3) res(4) show ?thesis
    by (intro conjI)
qed

theorem QBSolv_init_establishes_witness:
  "\<exists>obj1 s1 obj2 s2.
     QBSolv_init class_defined = (obj1, s1) \<and> QBSolv_init s1 = (obj2, s2)
   \<and> dict_items s1 (properties obj1) = Some []
   \<and> dict_items s2 (properties obj1) = Some []
   \<and> dict_items s2 (properties obj2) = Some []
   \<and> properties obj1 = Ref 0 \<and> parameters obj1 = Ref 11
   \<and> properties obj2 = Ref 12 \<and> parameters obj2 = Ref 23
   \<and> class_properties s2 = NoneRef \<and> class_parameters s2 = NoneRef"
proof -
  obtain obj1 s1 where c1: "QBSolv_init class_defined = (obj1, s1)"
    by (cases "QBSolv_init class_defined")
  obtain obj2 s2 where c2: "QBSolv_init s1 = (obj2, s2)"
    by (cases "QBSolv_init s1")
  note r1 = QBSolv_init_result [OF c1] and r2 = QBSolv_init_result [OF c2]
  have l1: "length (heap s1) = 12"
    by (simp add: r1(2) class_defined_def parameter_keys_def)
  have t: "take 12 (heap s2) = heap s1"
    using QBSolv_init_establishes [OF c2] l1 by simp
  have p1: "dict_items s1 (properties obj1) = Some []"
    using QBSolv_init_establishes [OF c1] by simp
  have "heap s2 ! 0 = heap s1 ! 0"
    using t by (metis l1 nth_take zero_less_numeral)
  then have p12: "dict_items s2 (properties obj1) = Some []"
    using p1 by (simp add: dict_items_def r1(1) r2(2) l1 class_defined_def)
  have p2: "dict_items s2 (properties obj2) = Some []"
    using QBSolv_init_establishes [OF c2] by simp
  show ?thesis
    using c1 c2 p1 p12 p2 r1(1) r2(1) r1(3,4) r2(3,4) l1
    by (simp add: class_defined_def)
qed

end
